theory Spec2Isabelle
  imports Main "HOL-Library.Word" "HOL-Library.Signed_Division"
begin

section \<open>The VIC provider of virtual-kubelet: pod proxy, image store, isolation proxy\<close>

text \<open>
  A shallow embedding of \<^verbatim>\<open>providers/vic/pod_proxy.go\<close> and of the two files of
  \<^verbatim>\<open>providers/vic/proxy\<close> (the image store and the isolation proxy).

  Conventions.
  \<^item> A Go \<^verbatim>\<open>string\<close> is a \<open>string\<close> (a list of 8-bit characters), a slice is a list
    (\<^verbatim>\<open>nil\<close> and the empty slice are both \<open>[]\<close>; the code only ever takes \<^verbatim>\<open>len\<close>
    of them or ranges over them).
  \<^item> \<^verbatim>\<open>int64\<close> is \<open>64 word\<close>, read with \<open>sint\<close>; Go's \<^verbatim>\<open>/\<close> and \<^verbatim>\<open>%\<close> truncate
    towards zero.
  \<^item> A pointer that may be \<^verbatim>\<open>nil\<close> is an \<open>option\<close>.
  \<^item> A Go \<^verbatim>\<open>error\<close> is a value of the datatype \<open>error\<close>; a function that returns
    \<^verbatim>\<open>(x, err)\<close> returns a pair whose second component is an \<open>error option\<close>
    (\<open>None\<close> is \<^verbatim>\<open>nil\<close>) where the code returns both, and a sum where only one matters.
  \<^item> Structs of different packages share field names (\<^verbatim>\<open>Cmd\<close>, \<^verbatim>\<open>Env\<close>, \<^verbatim>\<open>Handle\<close>, ...);
    a field is written with its record's name in front: \<open>Config.Cmd\<close>.
\<close>

subsection \<open>Errors\<close>

text \<open>
  The constructors stand for the error values the code builds. Where the Go code
  formats a message with \<^verbatim>\<open>fmt.Errorf\<close> or \<^verbatim>\<open>fmt.Sprintf\<close> the constructor keeps
  the data that goes into the message instead of the text.
  \<open>External m\<close> is an error handed back by a collaborator outside the repository
  (the port layer, the image cache, the HTTP client); \<open>m\<close> is its \<^verbatim>\<open>Error()\<close> text.
  \<open>RuntimePanic\<close> is a Go run-time panic (index out of range, nil dereference).
\<close>

datatype error =
    BadRequestError string
  | InternalServerError string
  | NillPortlayerClientError string
  | NumError string
  | ErrorParsingCPUCount error
  | FailedToGetImage error
  | PullStatusError int
  | PullReadError string
  | External string
  | RuntimePanic string

subsection \<open>The functions of Go's standard library that the code calls\<close>

text \<open>\<^verbatim>\<open>strings.HasPrefix(s, prefix)\<close>.\<close>

definition HasPrefix :: "string \<Rightarrow> string \<Rightarrow> bool" where
  "HasPrefix s p = (length p \<le> length s \<and> take (length p) s = p)"

text \<open>
  \<^verbatim>\<open>strings.SplitN(s, sep, 2)\<close> for a separator of one character \<open>c\<close>: the whole
  string when \<open>c\<close> does not occur, else the text before the first \<open>c\<close> and the text
  after it.
\<close>

definition SplitN2 :: "string \<Rightarrow> char \<Rightarrow> string list" where
  "SplitN2 s c =
     (if c \<in> set s then [takeWhile (\<lambda>x. x \<noteq> c) s, tl (dropWhile (\<lambda>x. x \<noteq> c) s)]
      else [s])"

text \<open>\<^verbatim>\<open>strings.Split(s, sep)\<close> for a separator of one character.\<close>

fun Split :: "string \<Rightarrow> char \<Rightarrow> string list" where
  "Split [] c = [[]]"
| "Split (x # xs) c =
     (if x = c then [] # Split xs c
      else (case Split xs c of [] \<Rightarrow> [[x]] | p # ps \<Rightarrow> (x # p) # ps))"

text \<open>
  \<^verbatim>\<open>strconv.Atoi\<close> on a platform whose \<^verbatim>\<open>int\<close> has 64 bits: an optional sign, then
  at least one decimal digit and nothing else; a value outside the 64-bit range is an
  error as well. Both kinds of failure are the one value \<open>NumError s\<close>.
\<close>

fun digits_val :: "string \<Rightarrow> nat \<Rightarrow> nat option" where
  "digits_val [] acc = Some acc"
| "digits_val (c # cs) acc =
     (let d = (of_char c :: nat)
      in if 48 \<le> d \<and> d \<le> 57 then digits_val cs (acc * 10 + (d - 48)) else None)"

definition Atoi :: "string \<Rightarrow> error + int" where
  "Atoi s =
     (let (neg, ds) =
        (case s of
           [] \<Rightarrow> (False, s)
         | c # cs \<Rightarrow>
             if c = CHR ''-'' then (True, cs)
             else if c = CHR ''+'' then (False, cs)
             else (False, s))
      in if ds = [] then Inl (NumError s)
         else (case digits_val ds 0 of
                 None \<Rightarrow> Inl (NumError s)
               | Some n \<Rightarrow>
                   let v = (if neg then - int n else int n)
                   in if - (2 ^ 63) \<le> v \<and> v < 2 ^ 63 then Inr v else Inl (NumError s)))"

subsection \<open>The isolation proxy: data\<close>

record PortBinding =
  HostIP :: string
  HostPort :: string

text \<open>
  \<^verbatim>\<open>PortMap\<close> is a Go map. It is kept as an association list: the order of the list
  is the order in which the \<^verbatim>\<open>range\<close> loop visits the entries (Go leaves that order
  open), and an empty map is \<open>[]\<close>.
\<close>

record IsolationContainerConfig =
  ID :: string
  ImageID :: string
  LayerID :: string
  ImageName :: string
  Name :: string
  Namespace :: string
  Cmd :: "string list"
  Path :: string
  Entrypoint :: "string list"
  Env :: "string list"
  WorkingDir :: string
  User :: string
  StopSignal :: string
  Attach :: bool
  StdinOnce :: bool
  OpenStdin :: bool
  Tty :: bool
  CPUCount :: "64 word"
  Memory :: "64 word"
  PortMap :: "(string \<times> PortBinding) list"

text \<open>\<^verbatim>\<open>models.TaskJoinConfig\<close> of the port layer, with the fields the proxy fills.\<close>

record TaskJoinConfig =
  ID :: string
  Namespace :: string
  Path :: string
  Args :: "string list"
  Env :: "string list"
  WorkingDir :: string
  User :: string
  Attach :: bool
  OpenStdin :: bool
  Tty :: bool
  StopSignal :: string
  Handle :: string

subsection \<open>The isolation proxy: building the task-join request\<close>

text \<open>
  \<^verbatim>\<open>IsolationContainerConfigToTask\<close>. Its block "Expand cmd into entrypoint and args"
  is \<open>resolve_path_args\<close>; indexing \<^verbatim>\<open>cmd[0]\<close> on an empty \<^verbatim>\<open>Cmd\<close> panics.
  \<^verbatim>\<open>append(ic.Entrypoint[1:], cmd...)\<close> has the elements of \<open>tl Entrypoint @ Cmd\<close>.
  The handle of the request is left at its zero value; \<^verbatim>\<open>CreateHandleTask\<close> fills it.
\<close>

definition resolve_path_args :: "IsolationContainerConfig \<Rightarrow> error + string \<times> string list" where
  "resolve_path_args ic =
     (let cmd = IsolationContainerConfig.Cmd ic
      in if length (IsolationContainerConfig.Entrypoint ic) \<noteq> 0
         then Inr (hd (IsolationContainerConfig.Entrypoint ic),
                   tl (IsolationContainerConfig.Entrypoint ic) @ cmd)
         else (case cmd of
                 [] \<Rightarrow> Inl (RuntimePanic ''index out of range'')
               | p # rest \<Rightarrow> Inr (p, rest)))"

definition IsolationContainerConfigToTask ::
    "string \<Rightarrow> string \<Rightarrow> IsolationContainerConfig \<Rightarrow> error + TaskJoinConfig" where
  "IsolationContainerConfigToTask cid layerID ic =
     (case resolve_path_args ic of
        Inl e \<Rightarrow> Inl e
      | Inr (path, args) \<Rightarrow>
          Inr \<lparr> TaskJoinConfig.ID = cid,
                TaskJoinConfig.Namespace = layerID,
                TaskJoinConfig.Path = path,
                TaskJoinConfig.Args = args,
                TaskJoinConfig.Env = IsolationContainerConfig.Env ic,
                TaskJoinConfig.WorkingDir = IsolationContainerConfig.WorkingDir ic,
                TaskJoinConfig.User = IsolationContainerConfig.User ic,
                TaskJoinConfig.Attach = True,
                TaskJoinConfig.OpenStdin = IsolationContainerConfig.OpenStdin ic,
                TaskJoinConfig.Tty = IsolationContainerConfig.Tty ic,
                TaskJoinConfig.StopSignal = IsolationContainerConfig.StopSignal ic,
                TaskJoinConfig.Handle = '''' \<rparr>)"

subsection \<open>The port layer client\<close>

text \<open>
  The request bodies of the port layer (\<^verbatim>\<open>models.NetworkConfig\<close>,
  \<^verbatim>\<open>models.ScopesAddContainerConfig\<close>, \<^verbatim>\<open>models.TaskBindConfig\<close>) with the fields the
  proxy fills. A payload handle of type \<^verbatim>\<open>interface{}\<close> is an \<open>iface\<close>: a string, or a
  value of another dynamic type, on which the assertion \<^verbatim>\<open>.(string)\<close> fails.
\<close>

record NetworkConfig =
  NetworkName :: string
  Ports :: "string list"

record ScopesAddContainerConfig =
  Handle :: string
  NetworkConfig :: NetworkConfig

record TaskBindConfig =
  Handle :: string
  ID :: string

datatype iface = IString string | INotString

text \<open>A request sent to the port layer. The scope calls carry the scope's name.\<close>

datatype call =
    TasksJoin TaskJoinConfig
  | TasksBind TaskBindConfig
  | ScopesAddContainer string ScopesAddContainerConfig
  | ScopesRemoveContainer string string

text \<open>
  The client \<^verbatim>\<open>client.PortLayer\<close> is generated code outside the repository, so it is a
  parameter: one answer function for each operation the proxy uses. An answer is
  \<open>Inl m\<close> for an error whose \<^verbatim>\<open>Error()\<close> text is \<open>m\<close>, or \<open>Inr\<close> of the payload. The
  first argument of an answer function is the list of the requests sent before, oldest
  first, so that an answer may depend on what the remote side has already seen.
  \<open>ScopesRemoveContainer h s\<close> is the request \<^verbatim>\<open>WithHandle(h).WithScope(s)\<close>.
\<close>

record PortLayer =
  Tasks_Join :: "call list \<Rightarrow> TaskJoinConfig \<Rightarrow> string + iface"
  Tasks_Bind :: "call list \<Rightarrow> TaskBindConfig \<Rightarrow> string + iface"
  Scopes_AddContainer :: "call list \<Rightarrow> string \<Rightarrow> ScopesAddContainerConfig \<Rightarrow> string + string"
  Scopes_RemoveContainer :: "call list \<Rightarrow> string \<Rightarrow> string \<Rightarrow> string + unit"

text \<open>
  Sending a request: the answer, and the list of requests with the new one at its end.
\<close>

definition send_Join :: "PortLayer \<Rightarrow> TaskJoinConfig \<Rightarrow> call list \<Rightarrow> (string + iface) \<times> call list" where
  "send_Join cl c tr = (Tasks_Join cl tr c, tr @ [TasksJoin c])"

definition send_Bind :: "PortLayer \<Rightarrow> TaskBindConfig \<Rightarrow> call list \<Rightarrow> (string + iface) \<times> call list" where
  "send_Bind cl c tr = (Tasks_Bind cl tr c, tr @ [TasksBind c])"

definition send_AddContainer ::
    "PortLayer \<Rightarrow> string \<Rightarrow> ScopesAddContainerConfig \<Rightarrow> call list \<Rightarrow> (string + string) \<times> call list" where
  "send_AddContainer cl scope c tr = (Scopes_AddContainer cl tr scope c, tr @ [ScopesAddContainer scope c])"

definition send_RemoveContainer ::
    "PortLayer \<Rightarrow> string \<Rightarrow> string \<Rightarrow> call list \<Rightarrow> (string + unit) \<times> call list" where
  "send_RemoveContainer cl h scope tr =
     (Scopes_RemoveContainer cl tr h scope, tr @ [ScopesRemoveContainer h scope])"

text \<open>
  \<^verbatim>\<open>VicIsolationProxy\<close>. Its image store and pod cache are not used by the functions
  below and are left out; the client pointer may be \<^verbatim>\<open>nil\<close>.
\<close>

record VicIsolationProxy =
  client :: "PortLayer option"
  portlayerAddr :: string

text \<open>What a call of a Go function ends in: it returns, or it panics.\<close>

datatype 'a outcome = Return 'a | Panic error

subsection \<open>The isolation proxy: CreateHandleTask\<close>

text \<open>
  \<^verbatim>\<open>CreateHandleTask\<close>: the join request built from the configuration, with the handle
  filled in, then the bind request on the handle that the join gave back. The result
  is the Go pair \<^verbatim>\<open>(handle, err)\<close> together with the requests sent.
\<close>

definition CreateHandleTask ::
    "VicIsolationProxy \<Rightarrow> string \<Rightarrow> string \<Rightarrow> string \<Rightarrow> IsolationContainerConfig \<Rightarrow> call list
       \<Rightarrow> (string \<times> error option) outcome \<times> call list" where
  "CreateHandleTask v handle cid layerID config tr =
     (case client v of
        None \<Rightarrow>
          (Return ('''', Some (InternalServerError
             ''IsolationProxy.CreateContainerTask failed to create a portlayer client'')), tr)
      | Some cl \<Rightarrow>
          (case IsolationContainerConfigToTask cid layerID config of
             Inl e \<Rightarrow> (Panic e, tr)
           | Inr params \<Rightarrow>
               let plTaskParams = params\<lparr>TaskJoinConfig.Handle := handle\<rparr>;
                   (responseJoin, tr1) = send_Join cl plTaskParams tr
               in (case responseJoin of
                     Inl m \<Rightarrow> (Return ('''', Some (InternalServerError m)), tr1)
                   | Inr INotString \<Rightarrow>
                       (Return ('''', Some (InternalServerError
                          ''Type assertion failed on handle from task join'')), tr1)
                   | Inr (IString h1) \<Rightarrow>
                       let plBindParams = \<lparr> TaskBindConfig.Handle = h1, TaskBindConfig.ID = cid \<rparr>;
                           (responseBind, tr2) = send_Bind cl plBindParams tr1
                       in (case responseBind of
                             Inl m \<Rightarrow> (Return ('''', Some (InternalServerError m)), tr2)
                           | Inr INotString \<Rightarrow>
                               (Return ('''', Some (InternalServerError
                                  ''Type assertion failed on handle from task bind'')), tr2)
                           | Inr (IString h2) \<Rightarrow> (Return (h2, None), tr2)))))"

subsection \<open>The isolation proxy: AddHandleToScope\<close>

text \<open>
  \<^verbatim>\<open>networkConfigFromIsolationConfig\<close> returns a pointer to a freshly built struct, so the
  result is never \<^verbatim>\<open>nil\<close>. The loop appends one \<^verbatim>\<open>"hostPort:key"\<close> string for each entry
  of the port map.
\<close>

definition networkConfigFromIsolationConfig :: "IsolationContainerConfig \<Rightarrow> NetworkConfig option" where
  "networkConfigFromIsolationConfig config =
     Some \<lparr> NetworkName = ''default'',
            Ports = foldl (\<lambda>ports (key, val). ports @ [HostPort val @ '':'' @ key]) []
                      (PortMap config) \<rparr>"

text \<open>
  The function deferred in \<^verbatim>\<open>AddHandleToScope\<close>. It reads the variables \<^verbatim>\<open>err\<close> and
  \<^verbatim>\<open>handle\<close> of the enclosing function when that function leaves: with \<^verbatim>\<open>err == nil\<close>
  it does nothing, otherwise it sends the removal; an error of the removal is only
  logged.
\<close>

definition deferred_rollback ::
    "PortLayer \<Rightarrow> error option \<Rightarrow> string \<Rightarrow> NetworkConfig \<Rightarrow> call list \<Rightarrow> call list" where
  "deferred_rollback cl err handle netConf tr =
     (if err = None then tr
      else snd (send_RemoveContainer cl handle (NetworkName netConf) tr))"

text \<open>
  \<^verbatim>\<open>AddHandleToScope\<close>. When \<^verbatim>\<open>AddContainer\<close> fails the function returns before the
  \<^verbatim>\<open>defer\<close> statement is reached, so nothing is deferred on that path. When it
  succeeds the deferred function runs at the final \<^verbatim>\<open>return handle, nil\<close>, where the
  variable \<^verbatim>\<open>err\<close> (set by the \<^verbatim>\<open>AddContainer\<close> call) is \<^verbatim>\<open>nil\<close>.
\<close>

definition AddHandleToScope ::
    "VicIsolationProxy \<Rightarrow> string \<Rightarrow> IsolationContainerConfig \<Rightarrow> call list
       \<Rightarrow> (string \<times> error option) \<times> call list" where
  "AddHandleToScope v handle config tr =
     (case client v of
        None \<Rightarrow> (('''', Some (NillPortlayerClientError ''IsolationProxy'')), tr)
      | Some cl \<Rightarrow>
          (case networkConfigFromIsolationConfig config of
             None \<Rightarrow> ((handle, None), tr)
           | Some netConf \<Rightarrow>
               let (addContRes, tr1) =
                     send_AddContainer cl (NetworkName netConf)
                       \<lparr> ScopesAddContainerConfig.Handle = handle, NetworkConfig = netConf \<rparr> tr
               in (case addContRes of
                     Inl m \<Rightarrow> ((handle, Some (InternalServerError m)), tr1)
                   | Inr payload \<Rightarrow>
                       let err = None;
                           handle' = payload
                       in ((handle', None), deferred_rollback cl err handle' netConf tr1))))"

text \<open>
  Two clients for the examples: one that accepts every request and extends the handle,
  one that differs only in refusing to add a container to a scope.
\<close>

definition example_client :: PortLayer where
  "example_client =
     \<lparr> Tasks_Join = (\<lambda>tr c. Inr (IString (TaskJoinConfig.Handle c @ ''+task''))),
       Tasks_Bind = (\<lambda>tr c. Inr (IString (TaskBindConfig.Handle c @ ''+bound''))),
       Scopes_AddContainer = (\<lambda>tr scope c. Inr (ScopesAddContainerConfig.Handle c @ ''+net'')),
       Scopes_RemoveContainer = (\<lambda>tr h scope. Inr ()) \<rparr>"

definition example_refusing_client :: PortLayer where
  "example_refusing_client =
     example_client\<lparr> Scopes_AddContainer := (\<lambda>tr scope c. Inl ''scope join refused'') \<rparr>"

subsection \<open>The pod proxy: data\<close>

text \<open>
  \<^verbatim>\<open>container.Config\<close> and \<^verbatim>\<open>container.HostConfig\<close> of Docker and
  \<^verbatim>\<open>types.ContainerCreateConfig\<close>, with the fields that \<^verbatim>\<open>pod_proxy.go\<close> reads or
  writes. \<^verbatim>\<open>Volumes\<close> is a \<^verbatim>\<open>map[string]struct{}\<close> used as a set; it may be \<^verbatim>\<open>nil\<close>.
  The two pointers of the create config may be \<^verbatim>\<open>nil\<close>.
\<close>

record Config =
  Cmd :: "string list"
  Entrypoint :: "string list"
  Env :: "string list"
  WorkingDir :: string
  Image :: string
  Tty :: bool
  StdinOnce :: bool
  OpenStdin :: bool
  User :: string
  Volumes :: "string set option"

record HostConfig =
  CPUCount :: "64 word"
  Memory :: "64 word"
  CpusetCpus :: string

record ContainerCreateConfig =
  Name :: string
  Config :: "Config option"
  HostConfig :: "HostConfig option"

text \<open>
  \<^verbatim>\<open>v1.Container\<close> of the Kubernetes API. \<open>Limits_Cpu\<close> and \<open>Limits_Memory\<close> are the
  values of \<^verbatim>\<open>Resources.Limits.Cpu().Value()\<close> and \<^verbatim>\<open>Resources.Limits.Memory().Value()\<close>;
  \<open>Env\<close> is the list of the (name, value) pairs of the container's \<^verbatim>\<open>EnvVar\<close>s.
  \<^verbatim>\<open>v1.Pod\<close> is kept as its name and the containers of its spec.
\<close>

record Container =
  Name :: string
  Image :: string
  Command :: "string list"
  Args :: "string list"
  WorkingDir :: string
  Env :: "(string \<times> string) list"
  TTY :: bool
  StdinOnce :: bool
  Stdin :: bool
  Limits_Cpu :: "64 word"
  Limits_Memory :: "64 word"

record Pod =
  Name :: string
  Containers :: "Container list"

subsection \<open>The pod proxy: constants\<close>

definition defaultEnvPath :: string where
  "defaultEnvPath = ''/usr/local/sbin:/usr/local/bin:/usr/sbin:/usr/bin:/sbin:/bin''"

definition MemoryAlignMB :: "64 word" where "MemoryAlignMB = 128"
definition MemoryMinMB :: "64 word" where "MemoryMinMB = 512"
definition MemoryDefaultMB :: "64 word" where "MemoryDefaultMB = 2048"
definition MinCPUs :: "64 word" where "MinCPUs = 1"
definition DefaultCPUs :: "64 word" where "DefaultCPUs = 2"

text \<open>\<^verbatim>\<open>units.MiB\<close> of \<^verbatim>\<open>go-units\<close>: 1024 * 1024.\<close>

definition MiB :: "64 word" where "MiB = 1048576"

text \<open>
  Go's \<^verbatim>\<open>/\<close> and \<^verbatim>\<open>%\<close> on \<^verbatim>\<open>int64\<close>: the quotient is truncated towards zero, the
  remainder has the sign of the dividend, and the result wraps to 64 bits. (The
  divisors in the code are non-zero constants.)
\<close>

definition go_div :: "64 word \<Rightarrow> 64 word \<Rightarrow> 64 word" where
  "go_div a b = word_of_int (sint a sdiv sint b)"

definition go_rem :: "64 word \<Rightarrow> 64 word \<Rightarrow> 64 word" where
  "go_rem a b = word_of_int (sint a smod sint b)"

subsection \<open>The pod proxy: translating the Kubernetes container\<close>

text \<open>
  \<^verbatim>\<open>KubeSpecToDockerCreateSpec\<close>. The struct literals leave every field that is not named
  at its zero value; \<^verbatim>\<open>Cmd\<close> is assigned only when the command is not empty.
\<close>

definition KubeSpecToDockerCreateSpec :: "Container \<Rightarrow> ContainerCreateConfig" where
  "KubeSpecToDockerCreateSpec cSpec =
     (let config0 =
            \<lparr> Config.Cmd = [], Config.Entrypoint = [], Config.Env = [],
              Config.WorkingDir = Container.WorkingDir cSpec,
              Config.Image = Container.Image cSpec,
              Config.Tty = TTY cSpec,
              Config.StdinOnce = Container.StdinOnce cSpec,
              Config.OpenStdin = Stdin cSpec,
              Config.User = '''', Volumes = None \<rparr>;
          config1 = (if length (Command cSpec) \<noteq> 0
                     then config0\<lparr>Config.Cmd := Command cSpec\<rparr> else config0);
          hostConfig = \<lparr> HostConfig.CPUCount = Limits_Cpu cSpec,
                         HostConfig.Memory = Limits_Memory cSpec,
                         CpusetCpus = '''' \<rparr>
      in \<lparr> ContainerCreateConfig.Name = Container.Name cSpec,
           Config = Some config1,
           HostConfig = Some hostConfig \<rparr>)"

subsection \<open>The pod proxy: merging the environment\<close>

text \<open>
  \<^verbatim>\<open>setPathFromImageConfig\<close>: each loop returns at the first entry that starts with
  \<^verbatim>\<open>PATH=\<close>.
\<close>

definition setPathFromImageConfig :: "string list \<Rightarrow> string list \<Rightarrow> string list" where
  "setPathFromImageConfig env imgEnv =
     (case find (\<lambda>v. HasPrefix v ''PATH='') env of
        Some v \<Rightarrow> env
      | None \<Rightarrow>
          (case find (\<lambda>v. HasPrefix v ''PATH='') imgEnv of
             Some v \<Rightarrow> env @ [v]
           | None \<Rightarrow> env @ [''PATH='' @ defaultEnvPath]))"

text \<open>
  \<^verbatim>\<open>setEnvFromImageConfig\<close>. The map \<^verbatim>\<open>containerEnv\<close> is filled from the environment
  as it is after \<^verbatim>\<open>setPathFromImageConfig\<close> and is not written again: neither the
  \<^verbatim>\<open>TERM=xterm\<close> entry nor the entries copied from the image are entered into it.
\<close>

definition containerEnv_of :: "string list \<Rightarrow> (string \<rightharpoonup> string)" where
  "containerEnv_of env =
     foldl (\<lambda>m e. let kv = SplitN2 e CHR ''='';
                       val = (if length kv = 2 then kv ! 1 else '''')
                   in m(kv ! 0 \<mapsto> val))
       Map.empty env"

definition setEnvFromImageConfig :: "bool \<Rightarrow> string list \<Rightarrow> string list \<Rightarrow> string list" where
  "setEnvFromImageConfig tty env imgEnv =
     (let env1 = setPathFromImageConfig env imgEnv;
          containerEnv = containerEnv_of env1;
          env2 = (if tty \<and> containerEnv ''TERM'' = None then env1 @ [''TERM=xterm''] else env1)
      in foldl (\<lambda>acc imageEnv.
                  let key = SplitN2 imageEnv CHR ''='' ! 0
                  in if containerEnv key = None then acc @ [imageEnv] else acc)
           env2 imgEnv)"


subsection \<open>The pod proxy: validating the create config\<close>

text \<open>
  \<^verbatim>\<open>validateCreateConfig\<close> in three parts. The first is its block "process cpucount
  here" up to the assignment of \<^verbatim>\<open>cpuCount\<close>: the count that is asked for, or the
  error of the parse. \<^verbatim>\<open>strings.Split\<close> never returns an empty slice, so \<^verbatim>\<open>cpus[0]\<close>
  is the head of the list.
\<close>

definition requested_cpuCount :: "HostConfig \<Rightarrow> error + 64 word" where
  "requested_cpuCount hc =
     (if 0 <s HostConfig.CPUCount hc then Inr (HostConfig.CPUCount hc)
      else if CpusetCpus hc \<noteq> ''''
      then (case Atoi (hd (Split (CpusetCpus hc) CHR '','')) of
              Inr c \<Rightarrow> Inr (word_of_int c)
            | Inl err \<Rightarrow> Inl (ErrorParsingCPUCount err))
      else Inr DefaultCPUs)"

text \<open>
  The second is the block from "convert from bytes to MiB" to the alignment:
  the number of mebibytes that is stored for a memory size in bytes.
\<close>

definition aligned_memoryMB :: "64 word \<Rightarrow> 64 word" where
  "aligned_memoryMB memory =
     (let memoryMB0 = go_div memory MiB;
          memoryMB1 = (if memoryMB0 = 0 then MemoryDefaultMB
                       else if memoryMB0 <s MemoryMinMB then MemoryMinMB
                       else memoryMB0);
          remainder = go_rem memoryMB1 MemoryAlignMB
      in if remainder \<noteq> 0 then memoryMB1 + (MemoryAlignMB - remainder) else memoryMB1)"

text \<open>
  The function itself. It updates \<^verbatim>\<open>*config\<close> in place and returns an error or \<^verbatim>\<open>nil\<close>;
  the model returns the error and the struct as the function leaves it. When the
  CPU set does not parse the function returns before any field of the host config is
  written (a \<^verbatim>\<open>nil\<close> host config has been replaced by an empty one by then, which
  is \<open>hostConfig_or_empty\<close>).
\<close>

definition hostConfig_or_empty :: "ContainerCreateConfig \<Rightarrow> HostConfig" where
  "hostConfig_or_empty config =
     (case ContainerCreateConfig.HostConfig config of
        None \<Rightarrow> \<lparr> HostConfig.CPUCount = 0, HostConfig.Memory = 0, CpusetCpus = '''' \<rparr>
      | Some h \<Rightarrow> h)"

definition validateCreateConfig ::
    "ContainerCreateConfig \<Rightarrow> error option \<times> ContainerCreateConfig" where
  "validateCreateConfig config =
     (case ContainerCreateConfig.Config config of
        None \<Rightarrow> (Some (BadRequestError ''invalid config''), config)
      | Some cfg \<Rightarrow>
          let hc = hostConfig_or_empty config
          in (case requested_cpuCount hc of
                Inl e \<Rightarrow> (Some e, config\<lparr>HostConfig := Some hc\<rparr>)
              | Inr cpuCount \<Rightarrow>
                  let hc1 = hc\<lparr>HostConfig.CPUCount := cpuCount\<rparr>;
                      hc2 = (if cpuCount <s MinCPUs
                             then hc1\<lparr>HostConfig.CPUCount := MinCPUs\<rparr> else hc1);
                      hc3 = hc2\<lparr>HostConfig.Memory := aligned_memoryMB (HostConfig.Memory hc2)\<rparr>
                  in (None, config\<lparr>HostConfig := Some hc3\<rparr>)))"

subsection \<open>The pod proxy: creating the containers of a pod\<close>

text \<open>
  The image store of package \<^verbatim>\<open>vic\<close> (the type of the field \<^verbatim>\<open>imageStore\<close>) is not among
  the sources, so its method \<^verbatim>\<open>Get\<close> is a parameter of the model. It answers with
  the Go pair \<^verbatim>\<open>(image, err)\<close>; the first argument is the list of the images looked up
  before, oldest first, so that an answer may depend on earlier lookups. Of the image
  only the field \<^verbatim>\<open>Config\<close> is read, a pointer to a \<^verbatim>\<open>container.Config\<close>.
\<close>

record ImageConfig =
  Config :: "Config option"






subsection \<open>The image store of package proxy\<close>

text \<open>
  \<^verbatim>\<open>VicImageStore.Get\<close> reads the image cache of the VIC engine and \<^verbatim>\<open>PullImage\<close> posts
  to the Docker persona; both are outside the repository and are parameters, over a
  state \<open>'w\<close> of the outside world. \<open>cache_Get w ref\<close> is the pair that
  \<^verbatim>\<open>cache.ImageCache().Get(ref)\<close> returns in the state \<open>w\<close>; \<open>http_Post w url\<close> is the
  answer to the POST (an error, or a response) and the state after it: a pull may
  change what the cache holds. A response is its status code and what
  \<^verbatim>\<open>ioutil.ReadAll\<close> gives for its body: \<open>Inl m\<close> for an error with the text \<open>m\<close>, or
  \<open>Inr\<close> of the bytes read.
\<close>

record Response =
  StatusCode :: int
  Body :: "string + string"

record 'w World =
  cache_Get :: "'w \<Rightarrow> string \<Rightarrow> ImageConfig option \<times> error option"
  http_Post :: "'w \<Rightarrow> string \<Rightarrow> (error + Response) \<times> 'w"

record VicImageStore =
  personaAddr :: string
  portlayerAddr :: string

definition PullImage ::
    "'w World \<Rightarrow> VicImageStore \<Rightarrow> string \<Rightarrow> string \<Rightarrow> string \<Rightarrow> string \<Rightarrow> 'w \<Rightarrow> error option \<times> 'w" where
  "PullImage env v imageRef tag username password w =
     (let personaServer =
            (if tag = ''''
             then ''http://'' @ personaAddr v @ ''/v1.35/images/create?fromImage='' @ imageRef
             else ''http://'' @ personaAddr v @ ''/v1.35/images/create?fromImage='' @ imageRef
                    @ ''&tag='' @ tag);
          (resp, w1) = http_Post env w personaServer
      in (case resp of
            Inl err \<Rightarrow> (Some err, w1)
          | Inr r \<Rightarrow>
              if StatusCode r \<noteq> 200 then (Some (PullStatusError (StatusCode r)), w1)
              else (case Body r of
                      Inl m \<Rightarrow> (Some (PullReadError m), w1)
                    | Inr body \<Rightarrow> (None, w1))))"

definition Get ::
    "'w World \<Rightarrow> VicImageStore \<Rightarrow> string \<Rightarrow> string \<Rightarrow> bool \<Rightarrow> 'w
       \<Rightarrow> (ImageConfig option \<times> error option) \<times> 'w" where
  "Get env v idOrRef tag actuate w =
     (let (c, err) = cache_Get env w idOrRef
      in if err \<noteq> None \<and> actuate
         then (let (err1, w1) = PullImage env v idOrRef tag '''' '''' w
               in if err1 = None
                  then (let (c2, err2) = cache_Get env w1 idOrRef
                        in if err2 \<noteq> None then ((None, err2), w1) else ((c2, None), w1))
                  else ((c, None), w1))
         else ((c, None), w))"

subsection \<open>Notions used in the properties\<close>

text \<open>
  The name of an environment entry is what \<^verbatim>\<open>setEnvFromImageConfig\<close> uses as the key of
  its map: the text before the first \<^verbatim>\<open>=\<close>, or the whole entry when it has none. An
  entry for \<^verbatim>\<open>PATH\<close> is what \<^verbatim>\<open>setPathFromImageConfig\<close> looks for: an entry that starts
  with \<^verbatim>\<open>PATH=\<close>. An entry for \<^verbatim>\<open>TERM\<close> is an entry whose name is \<^verbatim>\<open>TERM\<close>, which is
  the test that \<^verbatim>\<open>setEnvFromImageConfig\<close> makes on its map.
\<close>

definition env_key :: "string \<Rightarrow> string" where
  "env_key e = SplitN2 e CHR ''='' ! 0"

definition is_PATH_entry :: "string \<Rightarrow> bool" where
  "is_PATH_entry e = HasPrefix e ''PATH=''"

definition is_TERM_entry :: "string \<Rightarrow> bool" where
  "is_TERM_entry e = (env_key e = ''TERM'')"

subsection \<open>Zero values\<close>

text \<open>
  The Go zero values of \<^verbatim>\<open>container.Config\<close> and of \<^verbatim>\<open>v1.Container\<close>, from which
  examples are built.
\<close>

definition zero_Config :: Config where
  "zero_Config =
     \<lparr> Config.Cmd = [], Config.Entrypoint = [], Config.Env = [], Config.WorkingDir = '''',
       Config.Image = '''', Config.Tty = False, Config.StdinOnce = False,
       Config.OpenStdin = False, Config.User = '''', Volumes = None \<rparr>"

definition zero_Container :: Container where
  "zero_Container =
     \<lparr> Container.Name = '''', Container.Image = '''', Command = [], Container.Args = [],
       Container.WorkingDir = '''', Container.Env = [], TTY = False,
       Container.StdinOnce = False, Stdin = False, Limits_Cpu = 0, Limits_Memory = 0 \<rparr>"


text \<open>The Go zero value of \<^verbatim>\<open>IsolationContainerConfig\<close>, from which examples are built.\<close>

definition zero_IsolationContainerConfig :: IsolationContainerConfig where
  "zero_IsolationContainerConfig =
     \<lparr> IsolationContainerConfig.ID = '''', ImageID = '''', LayerID = '''', ImageName = '''',
       IsolationContainerConfig.Name = '''', IsolationContainerConfig.Namespace = '''',
       IsolationContainerConfig.Cmd = [], IsolationContainerConfig.Path = '''',
       IsolationContainerConfig.Entrypoint = [],
       IsolationContainerConfig.Env = [], IsolationContainerConfig.WorkingDir = '''',
       IsolationContainerConfig.User = '''', IsolationContainerConfig.StopSignal = '''',
       IsolationContainerConfig.Attach = False, IsolationContainerConfig.StdinOnce = False,
       IsolationContainerConfig.OpenStdin = False, IsolationContainerConfig.Tty = False,
       IsolationContainerConfig.CPUCount = 0, IsolationContainerConfig.Memory = 0,
       PortMap = [] \<rparr>"



text \<open>
  An outside world for the examples. Its state is the number of images the cache
  holds; the cache knows an image only when that number is not 0; the persona answers
  every POST with the given status code and never changes the cache.
\<close>

definition example_world :: "int \<Rightarrow> nat World" where
  "example_world status =
     \<lparr> cache_Get = (\<lambda>w ref. if w = 0 then (None, Some (External ''image not found''))
                              else (Some \<lparr> ImageConfig.Config = Some zero_Config \<rparr>, None)),
       http_Post = (\<lambda>w url. (Inr \<lparr> StatusCode = status, Body = Inr ''done'' \<rparr>, w)) \<rparr>"

text \<open>A create config for the examples, given its CPU count, CPU set and memory.\<close>

definition example_createConfig :: "64 word \<Rightarrow> string \<Rightarrow> 64 word \<Rightarrow> ContainerCreateConfig" where
  "example_createConfig cpu cpuset mem =
     \<lparr> ContainerCreateConfig.Name = ''c'', Config = Some zero_Config,
       HostConfig = Some \<lparr> HostConfig.CPUCount = cpu, HostConfig.Memory = mem,
                           CpusetCpus = cpuset \<rparr> \<rparr>"

section \<open>Properties\<close>

subsection \<open>Path and arguments of the primary task\<close>

text \<open>
  C4. A non-empty entrypoint gives the path \<open>Entrypoint[0]\<close> and the arguments
  \<open>Entrypoint[1:]\<close> followed by \<open>Cmd\<close>; an empty entrypoint with a non-empty command
  gives the path \<open>Cmd[0]\<close> and the arguments \<open>Cmd[1:]\<close>. The request built from the
  configuration carries that path and those arguments. The two scenarios of the
  specification are instances.
\<close>

theorem task_path_args_resolution:
  "(IsolationContainerConfig.Entrypoint ic \<noteq> [] \<longrightarrow>
      (\<exists>t. IsolationContainerConfigToTask cid layerID ic = Inr t
         \<and> TaskJoinConfig.Path t = hd (IsolationContainerConfig.Entrypoint ic)
         \<and> TaskJoinConfig.Args t =
               tl (IsolationContainerConfig.Entrypoint ic) @ IsolationContainerConfig.Cmd ic))
   \<and> (IsolationContainerConfig.Entrypoint ic = [] \<and> IsolationContainerConfig.Cmd ic \<noteq> [] \<longrightarrow>
      (\<exists>t. IsolationContainerConfigToTask cid layerID ic = Inr t
         \<and> TaskJoinConfig.Path t = hd (IsolationContainerConfig.Cmd ic)
         \<and> TaskJoinConfig.Args t = tl (IsolationContainerConfig.Cmd ic)))
   \<and> (IsolationContainerConfig.Entrypoint ic = []
        \<and> IsolationContainerConfig.Cmd ic = [''/bin/sh'', ''-c'', ''echo hi''] \<longrightarrow>
      (\<exists>t. IsolationContainerConfigToTask cid layerID ic = Inr t
         \<and> TaskJoinConfig.Path t = ''/bin/sh''
         \<and> TaskJoinConfig.Args t = [''-c'', ''echo hi'']))
   \<and> (IsolationContainerConfig.Entrypoint ic = [''/init'']
        \<and> IsolationContainerConfig.Cmd ic = [''--flag''] \<longrightarrow>
      (\<exists>t. IsolationContainerConfigToTask cid layerID ic = Inr t
         \<and> TaskJoinConfig.Path t = ''/init''
         \<and> TaskJoinConfig.Args t = [''--flag'']))"
  by (cases "IsolationContainerConfig.Cmd ic")
     (simp_all add: IsolationContainerConfigToTask_def resolve_path_args_def)

theorem task_path_args_resolution_witness:
  "(\<exists>t. IsolationContainerConfigToTask ''c1'' ''layer1''
          (zero_IsolationContainerConfig
             \<lparr>IsolationContainerConfig.Cmd := [''/bin/sh'', ''-c'', ''echo hi'']\<rparr>) = Inr t
      \<and> TaskJoinConfig.Path t = ''/bin/sh''
      \<and> TaskJoinConfig.Args t = [''-c'', ''echo hi''])
   \<and> (\<exists>t. IsolationContainerConfigToTask ''c1'' ''layer1''
          (zero_IsolationContainerConfig
             \<lparr>IsolationContainerConfig.Cmd := [''--flag''],
              IsolationContainerConfig.Entrypoint := [''/init'']\<rparr>) = Inr t
      \<and> TaskJoinConfig.Path t = ''/init''
      \<and> TaskJoinConfig.Args t = [''--flag''])"
  using
    task_path_args_resolution
      [of "zero_IsolationContainerConfig
             \<lparr>IsolationContainerConfig.Cmd := [''/bin/sh'', ''-c'', ''echo hi'']\<rparr>"
          "''c1''" "''layer1''"]
    task_path_args_resolution
      [of "zero_IsolationContainerConfig
             \<lparr>IsolationContainerConfig.Cmd := [''--flag''],
              IsolationContainerConfig.Entrypoint := [''/init'']\<rparr>"
          "''c1''" "''layer1''"]
  by (simp add: zero_IsolationContainerConfig_def)

subsection \<open>Joining the network scope\<close>

lemma Ports_of_PortMap:
  "foldl (\<lambda>ports (key, val). ports @ [HostPort val @ '':'' @ key]) acc pm
     = acc @ map (\<lambda>(key, val). HostPort val @ '':'' @ key) pm"
  by (induction pm arbitrary: acc) auto

lemma AddHandleToScope_requests:
  "set (snd (AddHandleToScope v handle config tr))
     \<subseteq> set tr \<union> range (\<lambda>(scope, c). ScopesAddContainer scope c)"
  by (auto simp add: AddHandleToScope_def networkConfigFromIsolationConfig_def
        send_AddContainer_def deferred_rollback_def
        split: sum.splits option.splits)

text \<open>
  C1, as stated, fails. With an empty port map and a client that accepts the request,
  \<^verbatim>\<open>AddHandleToScope\<close> sends an \<^verbatim>\<open>AddContainer\<close> request for the scope \<^verbatim>\<open>default\<close> and
  returns the handle of the answer, not the handle it was given.
\<close>

theorem AddHandleToScope_empty_PortMap_counterexample:
  "PortMap zero_IsolationContainerConfig = []
   \<and> AddHandleToScope \<lparr> client = Some example_client, portlayerAddr = '''' \<rparr> ''h1''
        zero_IsolationContainerConfig []
     = ((''h1+net'', None),
        [ScopesAddContainer ''default''
           \<lparr> ScopesAddContainerConfig.Handle = ''h1'',
             NetworkConfig = \<lparr> NetworkName = ''default'', Ports = [] \<rparr> \<rparr>])"
  by (simp add: AddHandleToScope_def networkConfigFromIsolationConfig_def send_AddContainer_def
      deferred_rollback_def example_client_def zero_IsolationContainerConfig_def)

text \<open>
  C1, amended. For every configuration whose port map is empty and every proxy with a
  client, \<^verbatim>\<open>AddHandleToScope\<close> sends exactly one request, an \<^verbatim>\<open>AddContainer\<close> for the scope
  \<^verbatim>\<open>default\<close> with the handle it was given and an empty list of ports. It returns the
  handle of the answer and no error when the request succeeds, and the handle it was
  given with an internal server error when the request fails.
\<close>

theorem AddHandleToScope_empty_PortMap:
  assumes "PortMap config = []" and "client v = Some cl"
  shows "snd (AddHandleToScope v handle config tr)
           = tr @ [ScopesAddContainer ''default''
                 \<lparr> ScopesAddContainerConfig.Handle = handle,
                   NetworkConfig = \<lparr> NetworkName = ''default'', Ports = [] \<rparr> \<rparr>]
    \<and> fst (AddHandleToScope v handle config tr)
           = (case Scopes_AddContainer cl tr ''default''
                 \<lparr> ScopesAddContainerConfig.Handle = handle,
                   NetworkConfig = \<lparr> NetworkName = ''default'', Ports = [] \<rparr> \<rparr> of
                Inl m \<Rightarrow> (handle, Some (InternalServerError m))
              | Inr payload \<Rightarrow> (payload, None))"
  using assms
  by (simp add: AddHandleToScope_def networkConfigFromIsolationConfig_def send_AddContainer_def
      deferred_rollback_def split: sum.splits)

theorem AddHandleToScope_empty_PortMap_witness:
  "snd (AddHandleToScope \<lparr> client = Some example_refusing_client, portlayerAddr = '''' \<rparr> ''h1''
          zero_IsolationContainerConfig [])
     = [ScopesAddContainer ''default''
          \<lparr> ScopesAddContainerConfig.Handle = ''h1'',
            NetworkConfig = \<lparr> NetworkName = ''default'', Ports = [] \<rparr> \<rparr>]
   \<and> fst (AddHandleToScope \<lparr> client = Some example_refusing_client, portlayerAddr = '''' \<rparr> ''h1''
          zero_IsolationContainerConfig [])
     = (''h1'', Some (InternalServerError ''scope join refused''))"
proof -
  have empty: "PortMap zero_IsolationContainerConfig = []"
    by (simp add: zero_IsolationContainerConfig_def)
  have cl: "client \<lparr> client = Some example_refusing_client, portlayerAddr = '''' \<rparr>
              = Some example_refusing_client"
    by simp
  show ?thesis
    using AddHandleToScope_empty_PortMap [OF empty cl, of "''h1''" "[]"]
    by (simp add: example_refusing_client_def example_client_def)
qed

text \<open>
  C2: the code does not do what the claim says. With one port binding and a client that
  refuses the \<^verbatim>\<open>AddContainer\<close> request, \<^verbatim>\<open>AddHandleToScope\<close> returns the handle it was given
  and the error, and the only request it has sent is the refused one: no
  \<^verbatim>\<open>RemoveContainer\<close> request follows.
\<close>

theorem AddHandleToScope_failed_join_sends_no_removal:
  "AddHandleToScope \<lparr> client = Some example_refusing_client, portlayerAddr = '''' \<rparr> ''h1''
        (zero_IsolationContainerConfig
           \<lparr> PortMap := [(''80'', \<lparr> HostIP = '''', HostPort = ''8080'' \<rparr>)] \<rparr>) []
     = ((''h1'', Some (InternalServerError ''scope join refused'')),
        [ScopesAddContainer ''default''
           \<lparr> ScopesAddContainerConfig.Handle = ''h1'',
             NetworkConfig = \<lparr> NetworkName = ''default'', Ports = [''8080:80''] \<rparr> \<rparr>])"
  by (simp add: AddHandleToScope_def networkConfigFromIsolationConfig_def send_AddContainer_def
      deferred_rollback_def example_client_def example_refusing_client_def
      zero_IsolationContainerConfig_def)

subsection \<open>The task-join request is attachable\<close>

lemma CreateHandleTask_requests:
  "snd (CreateHandleTask v handle cid layerID config tr) =
     tr @ (case client v of
             None \<Rightarrow> []
           | Some cl \<Rightarrow>
               (case IsolationContainerConfigToTask cid layerID config of
                  Inl e \<Rightarrow> []
                | Inr t \<Rightarrow>
                    TasksJoin (t\<lparr>TaskJoinConfig.Handle := handle\<rparr>) #
                    (case Tasks_Join cl tr (t\<lparr>TaskJoinConfig.Handle := handle\<rparr>) of
                       Inr (IString h1) \<Rightarrow>
                         [TasksBind \<lparr> TaskBindConfig.Handle = h1, TaskBindConfig.ID = cid \<rparr>]
                     | _ \<Rightarrow> [])))"
  by (simp add: CreateHandleTask_def send_Join_def send_Bind_def Let_def
        split: sum.splits option.splits iface.splits)

lemma task_request_attach:
  "IsolationContainerConfigToTask cid layerID config = Inr t \<Longrightarrow> TaskJoinConfig.Attach t"
  by (auto simp add: IsolationContainerConfigToTask_def split: sum.splits)

text \<open>
  C8. The request that \<^verbatim>\<open>IsolationContainerConfigToTask\<close> builds has \<open>Attach\<close> set, whatever
  the configuration says; every join request that \<^verbatim>\<open>CreateHandleTask\<close> sends has \<open>Attach\<close>
  set; and when the proxy has a client and the request can be built, the first request
  that \<^verbatim>\<open>CreateHandleTask\<close> sends is that join request, with the handle filled in.
\<close>

theorem CreateHandleTask_attach:
  "(\<forall>t. IsolationContainerConfigToTask cid layerID config = Inr t \<longrightarrow> TaskJoinConfig.Attach t)
   \<and> (\<forall>j. TasksJoin j \<in> set (drop (length tr) (snd (CreateHandleTask v handle cid layerID config tr)))
          \<longrightarrow> TaskJoinConfig.Attach j)
   \<and> (\<forall>cl t. client v = Some cl \<and> IsolationContainerConfigToTask cid layerID config = Inr t \<longrightarrow>
        (\<exists>rest. snd (CreateHandleTask v handle cid layerID config tr)
                  = tr @ TasksJoin (t\<lparr>TaskJoinConfig.Handle := handle\<rparr>) # rest
               \<and> TaskJoinConfig.Attach (t\<lparr>TaskJoinConfig.Handle := handle\<rparr>)))"
  by (auto simp add: CreateHandleTask_requests task_request_attach
        split: sum.splits option.splits iface.splits)

theorem CreateHandleTask_attach_witness:
  "\<not> IsolationContainerConfig.Attach zero_IsolationContainerConfig
   \<and> (\<exists>j rest.
        snd (CreateHandleTask \<lparr> client = Some example_client, portlayerAddr = '''' \<rparr> ''h0'' ''c1''
               ''layer1''
               (zero_IsolationContainerConfig\<lparr>IsolationContainerConfig.Cmd := [''/bin/true'']\<rparr>) [])
          = TasksJoin j # rest
        \<and> TaskJoinConfig.Path j = ''/bin/true''
        \<and> TaskJoinConfig.Handle j = ''h0''
        \<and> TaskJoinConfig.Attach j)"
  using CreateHandleTask_attach
    [of "''c1''" "''layer1''"
        "zero_IsolationContainerConfig\<lparr>IsolationContainerConfig.Cmd := [''/bin/true'']\<rparr>"
        "[]" "\<lparr> client = Some example_client, portlayerAddr = '''' \<rparr>" "''h0''"]
  by (auto simp add: zero_IsolationContainerConfig_def IsolationContainerConfigToTask_def
        resolve_path_args_def)

subsection \<open>Memory of the container VM\<close>

lemma sint_word_of_int_64:
  "- (2 ^ 63) \<le> k \<Longrightarrow> k < 2 ^ 63 \<Longrightarrow> sint (word_of_int k :: 64 word) = k"
  by (simp add: sint_sbintrunc' signed_take_bit_int_eq_self)

lemma sdiv_MiB_bounds:
  fixes k :: int
  assumes "- (2 ^ 63) \<le> k" "k < 2 ^ 63"
  shows "- (2 ^ 43) \<le> k sdiv 1048576 \<and> k sdiv 1048576 < 2 ^ 43"
proof (cases "0 \<le> k")
  case True
  then have "k sdiv 1048576 = k div 1048576"
    by (simp add: signed_divide_int_def sgn_if)
  with True assms show ?thesis by auto
next
  case False
  then have "k sdiv 1048576 = - ((- k) div 1048576)"
    by (simp add: signed_divide_int_def sgn_if)
  with False assms show ?thesis by auto
qed

lemma sint_go_div_MiB: "sint (go_div m MiB) = sint m sdiv 1048576"
proof -
  have b: "- (2 ^ 63) \<le> sint m" "sint m < 2 ^ 63"
    using sint_ge [of m] sint_lt [of m] by simp_all
  from sdiv_MiB_bounds [OF b] show ?thesis
    by (simp add: go_div_def MiB_def sint_word_of_int_64)
qed

lemma sint_go_rem_align:
  assumes "0 \<le> sint m"
  shows "sint (go_rem m MemoryAlignMB) = sint m mod 128"
proof -
  have "sint m smod 128 = sint m mod 128"
    using assms by (simp add: smod_mod_positive)
  moreover have "0 \<le> sint m mod 128" "sint m mod 128 < 128" by simp_all
  ultimately show ?thesis
    by (simp add: go_rem_def MemoryAlignMB_def sint_word_of_int_64)
qed

lemma memoryMB1_bounds:
  fixes m :: "64 word"
  defines "mb1 \<equiv> (if go_div m MiB = 0 then MemoryDefaultMB
                    else if go_div m MiB <s MemoryMinMB then MemoryMinMB else go_div m MiB)"
  shows "512 \<le> sint mb1 \<and> sint mb1 < 2 ^ 43"
proof -
  have b: "- (2 ^ 63) \<le> sint m" "sint m < 2 ^ 63"
    using sint_ge [of m] sint_lt [of m] by simp_all
  have "sint (go_div m MiB) < 2 ^ 43"
    using sdiv_MiB_bounds [OF b] by (simp add: sint_go_div_MiB)
  then show ?thesis
    by (simp add: mb1_def MemoryDefaultMB_def MemoryMinMB_def word_sless_alt)
qed


lemma go_rem_zero_iff:
  assumes "0 \<le> sint w"
  shows "go_rem w MemoryAlignMB = 0 \<longleftrightarrow> sint w mod 128 = 0"
proof
  assume "go_rem w MemoryAlignMB = 0"
  then have "sint (go_rem w MemoryAlignMB) = 0" by simp
  then show "sint w mod 128 = 0" using assms by (simp add: sint_go_rem_align)
next
  assume "sint w mod 128 = 0"
  then have "sint w smod 128 = 0" using assms by (simp add: smod_mod_positive)
  then show "go_rem w MemoryAlignMB = 0" by (simp add: go_rem_def MemoryAlignMB_def)
qed

lemma sint_round_up:
  assumes "512 \<le> sint w" "sint w < 2 ^ 43"
  shows "sint (w + (MemoryAlignMB - go_rem w MemoryAlignMB)) = sint w + (128 - sint w mod 128)"
proof -
  have r: "sint (go_rem w MemoryAlignMB) = sint w mod 128"
    using assms by (simp add: sint_go_rem_align)
  have "w + (MemoryAlignMB - go_rem w MemoryAlignMB)
          = word_of_int (sint w) + (word_of_int 128 - word_of_int (sint (go_rem w MemoryAlignMB)))"
    by (simp add: MemoryAlignMB_def)
  also have "\<dots> = word_of_int (sint w + (128 - sint w mod 128))"
    by (simp only: r of_int_add of_int_diff)
  finally have e: "w + (MemoryAlignMB - go_rem w MemoryAlignMB)
          = word_of_int (sint w + (128 - sint w mod 128))" .
  have "0 \<le> sint w mod 128" "sint w mod 128 < 128" by simp_all
  then have "- (2 ^ 63) \<le> sint w + (128 - sint w mod 128)"
            "sint w + (128 - sint w mod 128) < 2 ^ 63"
    using assms by simp_all
  then show ?thesis
    by (simp only: e sint_word_of_int_64)
qed


lemma round_up_int:
  fixes k :: int
  assumes "512 \<le> k"
  shows "512 \<le> (if k mod 128 \<noteq> 0 then k + (128 - k mod 128) else k)
       \<and> (if k mod 128 \<noteq> 0 then k + (128 - k mod 128) else k) mod 128 = 0"
proof -
  have "0 \<le> k mod 128" "k mod 128 < 128" by simp_all
  moreover have "(k + (128 - k mod 128)) mod 128 = 0"
    by presburger
  ultimately show ?thesis using assms by auto
qed

lemma aligned_memoryMB_props:
  "512 \<le> sint (aligned_memoryMB m) \<and> sint (aligned_memoryMB m) mod 128 = 0"
proof -
  define w where "w = (if go_div m MiB = 0 then MemoryDefaultMB
                      else if go_div m MiB <s MemoryMinMB then MemoryMinMB else go_div m MiB)"
  have bw: "512 \<le> sint w" "sint w < 2 ^ 43"
    using memoryMB1_bounds [of m] unfolding w_def by simp_all
  have a: "aligned_memoryMB m =
             (if go_rem w MemoryAlignMB \<noteq> 0 then w + (MemoryAlignMB - go_rem w MemoryAlignMB) else w)"
    unfolding aligned_memoryMB_def w_def Let_def by (rule refl)
  have "sint (aligned_memoryMB m) =
          (if sint w mod 128 \<noteq> 0 then sint w + (128 - sint w mod 128) else sint w)"
    using bw by (simp add: a go_rem_zero_iff sint_round_up)
  then show ?thesis
    using round_up_int [OF bw(1)] by presburger
qed

lemma aligned_memoryMB_zero: "aligned_memoryMB 0 = 2048"
  by (simp add: aligned_memoryMB_def go_div_def go_rem_def MiB_def MemoryDefaultMB_def
      MemoryAlignMB_def MemoryMinMB_def signed_divide_int_def signed_modulo_int_def)

lemma validateCreateConfig_success:
  assumes "fst (validateCreateConfig config) = None"
  shows "\<exists>cpuCount.
           requested_cpuCount (hostConfig_or_empty config) = Inr cpuCount
         \<and> ContainerCreateConfig.HostConfig (snd (validateCreateConfig config)) =
             Some \<lparr> HostConfig.CPUCount = (if cpuCount <s MinCPUs then MinCPUs else cpuCount),
                    HostConfig.Memory =
                      aligned_memoryMB (HostConfig.Memory (hostConfig_or_empty config)),
                    CpusetCpus = CpusetCpus (hostConfig_or_empty config) \<rparr>"
proof (cases "ContainerCreateConfig.Config config")
  case None
  with assms show ?thesis by (simp add: validateCreateConfig_def)
next
  case (Some cfg)
  show ?thesis
  proof (cases "requested_cpuCount (hostConfig_or_empty config)")
    case (Inl e)
    with Some assms show ?thesis by (simp add: validateCreateConfig_def)
  next
    case (Inr cpuCount)
    with Some show ?thesis by (simp add: validateCreateConfig_def Let_def)
  qed
qed

text \<open>
  C5. Whenever \<^verbatim>\<open>validateCreateConfig\<close> returns without an error, the memory it stores
  (in mebibytes) is positive, a multiple of \<open>MemoryAlignMB\<close> = 128 and at least
  \<open>MemoryMinMB\<close> = 512, for every memory input of 64 bits, zero and negative values
  included; for an input of 0 bytes it is \<open>MemoryDefaultMB\<close> = 2048, which is aligned
  already.
\<close>

theorem validateCreateConfig_memory:
  assumes "fst (validateCreateConfig config) = None"
  shows "\<exists>h. ContainerCreateConfig.HostConfig (snd (validateCreateConfig config)) = Some h
           \<and> HostConfig.Memory h = aligned_memoryMB (HostConfig.Memory (hostConfig_or_empty config))
           \<and> 0 < sint (HostConfig.Memory h)
           \<and> sint (HostConfig.Memory h) mod sint MemoryAlignMB = 0
           \<and> sint MemoryMinMB \<le> sint (HostConfig.Memory h)
           \<and> (HostConfig.Memory (hostConfig_or_empty config) = 0
                \<longrightarrow> HostConfig.Memory h = MemoryDefaultMB)"
proof -
  from validateCreateConfig_success [OF assms] obtain h where
    h: "ContainerCreateConfig.HostConfig (snd (validateCreateConfig config)) = Some h"
       "HostConfig.Memory h = aligned_memoryMB (HostConfig.Memory (hostConfig_or_empty config))"
    by auto
  have "512 \<le> sint (HostConfig.Memory h)" "sint (HostConfig.Memory h) mod 128 = 0"
    using aligned_memoryMB_props [of "HostConfig.Memory (hostConfig_or_empty config)"]
    by (simp_all add: h(2))
  moreover have "HostConfig.Memory (hostConfig_or_empty config) = 0
                   \<longrightarrow> HostConfig.Memory h = MemoryDefaultMB"
    by (simp add: h(2) aligned_memoryMB_zero MemoryDefaultMB_def)
  ultimately show ?thesis
    using h by (simp add: MemoryAlignMB_def MemoryMinMB_def)
qed

lemma aligned_memoryMB_examples:
  "aligned_memoryMB (- 1048576) = 512" "aligned_memoryMB 1048576001 = 1024"
  by (simp_all add: aligned_memoryMB_def go_div_def go_rem_def MiB_def MemoryDefaultMB_def
      MemoryAlignMB_def MemoryMinMB_def signed_divide_int_def signed_modulo_int_def word_sless_alt)

theorem validateCreateConfig_memory_witness:
  "fst (validateCreateConfig
          \<lparr> ContainerCreateConfig.Name = ''c'', Config = Some zero_Config,
            HostConfig = Some \<lparr> HostConfig.CPUCount = 4, HostConfig.Memory = 1048576001,
                                CpusetCpus = '''' \<rparr> \<rparr>) = None
   \<and> (\<exists>h. ContainerCreateConfig.HostConfig (snd (validateCreateConfig
          \<lparr> ContainerCreateConfig.Name = ''c'', Config = Some zero_Config,
            HostConfig = Some \<lparr> HostConfig.CPUCount = 4, HostConfig.Memory = 1048576001,
                                CpusetCpus = '''' \<rparr> \<rparr>)) = Some h
        \<and> HostConfig.Memory h = 1024
        \<and> 0 < sint (HostConfig.Memory h)
        \<and> sint (HostConfig.Memory h) mod sint MemoryAlignMB = 0
        \<and> sint MemoryMinMB \<le> sint (HostConfig.Memory h))
   \<and> (\<exists>h. ContainerCreateConfig.HostConfig (snd (validateCreateConfig
          \<lparr> ContainerCreateConfig.Name = ''c'', Config = Some zero_Config,
            HostConfig = None \<rparr>)) = Some h
        \<and> HostConfig.Memory h = MemoryDefaultMB)"
proof -
  have ok1: "fst (validateCreateConfig
          \<lparr> ContainerCreateConfig.Name = ''c'', Config = Some zero_Config,
            HostConfig = Some \<lparr> HostConfig.CPUCount = 4, HostConfig.Memory = 1048576001,
                                CpusetCpus = '''' \<rparr> \<rparr>) = None"
    by (simp add: validateCreateConfig_def requested_cpuCount_def hostConfig_or_empty_def
        Let_def word_sless_alt)
  have ok2: "fst (validateCreateConfig
          \<lparr> ContainerCreateConfig.Name = ''c'', Config = Some zero_Config,
            HostConfig = None \<rparr>) = None"
    by (simp add: validateCreateConfig_def requested_cpuCount_def hostConfig_or_empty_def
        Let_def word_sless_alt)
  show ?thesis
    using ok1 validateCreateConfig_memory [OF ok1] validateCreateConfig_memory [OF ok2]
    by (auto simp add: hostConfig_or_empty_def aligned_memoryMB_examples)
qed

subsection \<open>CPU count of the container VM\<close>

lemma Split_nonempty: "Split s c \<noteq> []"
  by (induction s) (simp_all split: list.splits)

lemma Atoi_range: "Atoi s = Inr c \<Longrightarrow> - (2 ^ 63) \<le> c \<and> c < 2 ^ 63"
  unfolding Atoi_def Let_def
  by (simp split: prod.splits if_splits option.splits)

lemma requested_cpuCount_nonpositive:
  assumes "sint (HostConfig.CPUCount hc) \<le> 0"
  shows "requested_cpuCount hc =
           (if CpusetCpus hc \<noteq> ''''
            then (case Atoi (hd (Split (CpusetCpus hc) CHR '','')) of
                    Inr c \<Rightarrow> Inr (word_of_int c)
                  | Inl err \<Rightarrow> Inl (ErrorParsingCPUCount err))
            else Inr DefaultCPUs)"
  using assms by (simp add: requested_cpuCount_def word_sless_alt)

lemma validateCreateConfig_cases:
  assumes "ContainerCreateConfig.Config config \<noteq> None"
  shows "validateCreateConfig config =
           (case requested_cpuCount (hostConfig_or_empty config) of
              Inl e \<Rightarrow> (Some e, config\<lparr>HostConfig := Some (hostConfig_or_empty config)\<rparr>)
            | Inr cpuCount \<Rightarrow>
                (None, config\<lparr>HostConfig := Some
                   \<lparr> HostConfig.CPUCount = (if cpuCount <s MinCPUs then MinCPUs else cpuCount),
                     HostConfig.Memory =
                       aligned_memoryMB (HostConfig.Memory (hostConfig_or_empty config)),
                     CpusetCpus = CpusetCpus (hostConfig_or_empty config) \<rparr>\<rparr>))"
proof (cases "requested_cpuCount (hostConfig_or_empty config)")
  case (Inl e)
  with assms show ?thesis by (auto simp add: validateCreateConfig_def)
next
  case (Inr cpuCount)
  with assms show ?thesis by (auto simp add: validateCreateConfig_def Let_def)
qed

text \<open>
  C3, amended. For every create config with a \<^verbatim>\<open>Config\<close> and a CPU count that is not
  positive: when the CPU set is empty the count becomes \<open>DefaultCPUs\<close> = 2; when the
  first comma-separated item of the CPU set parses as an integer \<open>c\<close> the count becomes
  \<open>c\<close>, raised to \<open>MinCPUs\<close> = 1 when \<open>c\<close> is smaller; when that item does not parse
  \<^verbatim>\<open>validateCreateConfig\<close> returns an error and leaves the host config as it was.
\<close>

theorem validateCreateConfig_cpu_nonpositive:
  fixes config :: ContainerCreateConfig
  defines "hc \<equiv> hostConfig_or_empty config"
  defines "r \<equiv> validateCreateConfig config"
  assumes "ContainerCreateConfig.Config config \<noteq> None"
      and "sint (HostConfig.CPUCount hc) \<le> 0"
  shows "(CpusetCpus hc = '''' \<longrightarrow>
            fst r = None
          \<and> (\<exists>h. ContainerCreateConfig.HostConfig (snd r) = Some h
                  \<and> HostConfig.CPUCount h = DefaultCPUs))
       \<and> (\<forall>c. CpusetCpus hc \<noteq> '''' \<and> Atoi (hd (Split (CpusetCpus hc) CHR '','')) = Inr c \<longrightarrow>
            fst r = None
          \<and> (\<exists>h. ContainerCreateConfig.HostConfig (snd r) = Some h
                  \<and> sint (HostConfig.CPUCount h) = max c (sint MinCPUs)))
       \<and> (\<forall>e. CpusetCpus hc \<noteq> '''' \<and> Atoi (hd (Split (CpusetCpus hc) CHR '','')) = Inl e \<longrightarrow>
            fst r = Some (ErrorParsingCPUCount e)
          \<and> ContainerCreateConfig.HostConfig (snd r) = Some hc)"
proof -
  have rq: "requested_cpuCount hc =
           (if CpusetCpus hc \<noteq> ''''
            then (case Atoi (hd (Split (CpusetCpus hc) CHR '','')) of
                    Inr c \<Rightarrow> Inr (word_of_int c)
                  | Inl err \<Rightarrow> Inl (ErrorParsingCPUCount err))
            else Inr DefaultCPUs)"
    using assms(4) by (rule requested_cpuCount_nonpositive)
  note v = validateCreateConfig_cases [OF assms(3), folded hc_def r_def]
  have a: "CpusetCpus hc = '''' \<longrightarrow>
            fst r = None
          \<and> (\<exists>h. ContainerCreateConfig.HostConfig (snd r) = Some h
                  \<and> HostConfig.CPUCount h = DefaultCPUs)"
    by (simp add: v rq DefaultCPUs_def MinCPUs_def word_sless_alt)
  have b: "fst r = None
          \<and> (\<exists>h. ContainerCreateConfig.HostConfig (snd r) = Some h
                  \<and> sint (HostConfig.CPUCount h) = max c (sint MinCPUs))"
    if "CpusetCpus hc \<noteq> ''''" "Atoi (hd (Split (CpusetCpus hc) CHR '','')) = Inr c" for c
  proof -
    have "sint (word_of_int c :: 64 word) = c"
      using Atoi_range [OF that(2)] by (simp add: sint_word_of_int_64)
    then show ?thesis
      using that by (simp add: v rq MinCPUs_def word_sless_alt max_def)
  qed
  have c: "fst r = Some (ErrorParsingCPUCount e)
          \<and> ContainerCreateConfig.HostConfig (snd r) = Some hc"
    if "CpusetCpus hc \<noteq> ''''" "Atoi (hd (Split (CpusetCpus hc) CHR '','')) = Inl e" for e
    using that by (simp add: v rq)
  from a b c show ?thesis by blast
qed

theorem validateCreateConfig_cpu_nonpositive_witness:
  "(fst (validateCreateConfig (example_createConfig 0 '''' 0)) = None
     \<and> (\<exists>h. ContainerCreateConfig.HostConfig
                (snd (validateCreateConfig (example_createConfig 0 '''' 0))) = Some h
            \<and> HostConfig.CPUCount h = DefaultCPUs))
   \<and> (fst (validateCreateConfig (example_createConfig (- 1) ''-3,4'' 0)) = None
     \<and> (\<exists>h. ContainerCreateConfig.HostConfig
                (snd (validateCreateConfig (example_createConfig (- 1) ''-3,4'' 0))) = Some h
            \<and> sint (HostConfig.CPUCount h) = 1))
   \<and> (fst (validateCreateConfig (example_createConfig 0 ''0-3'' 0))
          = Some (ErrorParsingCPUCount (NumError ''0-3''))
     \<and> ContainerCreateConfig.HostConfig (snd (validateCreateConfig (example_createConfig 0 ''0-3'' 0)))
          = Some \<lparr> HostConfig.CPUCount = 0, HostConfig.Memory = 0, CpusetCpus = ''0-3'' \<rparr>)"
proof -
  have cfg: "ContainerCreateConfig.Config (example_createConfig cpu cpuset mem) \<noteq> None"
    for cpu cpuset mem
    by (simp add: example_createConfig_def)
  have cpu0: "sint (HostConfig.CPUCount (hostConfig_or_empty (example_createConfig 0 cpuset 0))) \<le> 0"
    for cpuset
    by (simp add: example_createConfig_def hostConfig_or_empty_def)
  have cpu1: "sint (HostConfig.CPUCount
                 (hostConfig_or_empty (example_createConfig (- 1) ''-3,4'' 0))) \<le> 0"
    by (simp add: example_createConfig_def hostConfig_or_empty_def)
  show ?thesis
    using
      validateCreateConfig_cpu_nonpositive [OF cfg cpu0, of "''''"]
      validateCreateConfig_cpu_nonpositive [OF cfg cpu1]
      validateCreateConfig_cpu_nonpositive [OF cfg cpu0, of "''0-3''"]
    by (simp add: example_createConfig_def hostConfig_or_empty_def Atoi_def MinCPUs_def)
qed

text \<open>
  C3, as stated, fails. With a CPU count of 0 and an empty CPU set the count becomes
  \<open>DefaultCPUs\<close> = 2, not \<open>MinCPUs\<close> = 1; with the CPU set \<^verbatim>\<open>0-3\<close>, which does not parse
  as an integer, the function returns an error and the count stays 0.
\<close>

theorem validateCreateConfig_cpu_counterexample:
  "validateCreateConfig (example_createConfig 0 '''' 0)
     = (None, example_createConfig 2 '''' 2048)
   \<and> (2 :: 64 word) \<noteq> MinCPUs
   \<and> validateCreateConfig (example_createConfig 0 ''0-3'' 0)
     = (Some (ErrorParsingCPUCount (NumError ''0-3'')), example_createConfig 0 ''0-3'' 0)
   \<and> (0 :: 64 word) \<noteq> MinCPUs"
  by (simp add: validateCreateConfig_def example_createConfig_def hostConfig_or_empty_def
      requested_cpuCount_def Atoi_def MinCPUs_def DefaultCPUs_def aligned_memoryMB_zero
      word_sless_alt)

subsection \<open>The merged environment\<close>

lemma env_key_takeWhile: "env_key e = takeWhile (\<lambda>x. x \<noteq> CHR ''='') e"
proof (cases "CHR ''='' \<in> set e")
  case True
  then show ?thesis by (simp add: env_key_def SplitN2_def)
next
  case False
  then have "\<forall>x \<in> set e. x \<noteq> CHR ''=''" by blast
  then have tw: "takeWhile (\<lambda>x. x \<noteq> CHR ''='') e = e"
    by (simp only: takeWhile_eq_all_conv)
  have "env_key e = e"
    using False by (simp add: env_key_def SplitN2_def)
  then show ?thesis by (simp only: tw)
qed

lemma HasPrefix_append: "HasPrefix (p @ s) p"
  by (simp add: HasPrefix_def)

lemma default_PATH_entry: "HasPrefix (''PATH='' @ s) ''PATH=''"
  by (rule HasPrefix_append)

lemma HasPrefix_decompose: "HasPrefix e p \<Longrightarrow> \<exists>s. e = p @ s"
  by (metis HasPrefix_def append_take_drop_id)

lemma PATH_entry_key: "is_PATH_entry e \<Longrightarrow> env_key e = ''PATH''"
proof -
  assume "is_PATH_entry e"
  then obtain s where "e = ''PATH='' @ s"
    unfolding is_PATH_entry_def by (blast dest: HasPrefix_decompose)
  then show ?thesis by (simp add: env_key_takeWhile)
qed

lemma dom_containerEnv_fold:
  "dom (foldl (\<lambda>m e. let kv = SplitN2 e CHR ''='';
                       val = (if length kv = 2 then kv ! 1 else '''')
                   in m(kv ! 0 \<mapsto> val)) m0 env) = dom m0 \<union> env_key ` set env"
  by (induction env arbitrary: m0) (auto simp: Let_def env_key_def)

lemma dom_containerEnv_of: "dom (containerEnv_of env) = env_key ` set env"
  unfolding containerEnv_of_def dom_containerEnv_fold by simp

lemma containerEnv_None_iff: "containerEnv_of env k = None \<longleftrightarrow> k \<notin> env_key ` set env"
proof -
  have "containerEnv_of env k = None \<longleftrightarrow> k \<notin> dom (containerEnv_of env)"
    by (simp add: domIff)
  then show ?thesis by (simp only: dom_containerEnv_of)
qed

lemma copy_loop_filter:
  "foldl (\<lambda>acc imageEnv. if m (SplitN2 imageEnv CHR ''='' ! 0) = None
                          then acc @ [imageEnv] else acc) acc0 imgEnv
   = acc0 @ filter (\<lambda>e. m (env_key e) = None) imgEnv"
  by (induction imgEnv arbitrary: acc0) (auto simp: env_key_def)

lemma setEnvFromImageConfig_shape:
  "setEnvFromImageConfig tty env imgEnv =
     setPathFromImageConfig env imgEnv
     @ (if tty \<and> ''TERM'' \<notin> env_key ` set (setPathFromImageConfig env imgEnv)
        then [''TERM=xterm''] else [])
     @ filter (\<lambda>e. env_key e \<notin> env_key ` set (setPathFromImageConfig env imgEnv)) imgEnv"
  unfolding setEnvFromImageConfig_def Let_def copy_loop_filter
  by (simp add: containerEnv_None_iff)

lemma setPath_shape:
  "setPathFromImageConfig env imgEnv =
     env @ (if \<exists>e \<in> set env. is_PATH_entry e then []
            else [case find is_PATH_entry imgEnv of Some v \<Rightarrow> v | None \<Rightarrow> ''PATH='' @ defaultEnvPath])"
proof -
  have eq: "(\<lambda>v. HasPrefix v ''PATH='') = is_PATH_entry"
    by (simp add: is_PATH_entry_def fun_eq_iff)
  show ?thesis
  proof (cases "find is_PATH_entry env")
    case None
    then have "\<not> (\<exists>e \<in> set env. is_PATH_entry e)"
      by (simp add: find_None_iff)
    with None show ?thesis
      by (simp add: setPathFromImageConfig_def eq split: option.splits)
  next
    case (Some v)
    then have "\<exists>e \<in> set env. is_PATH_entry e"
      by (auto simp: find_Some_iff)
    with Some show ?thesis
      by (simp add: setPathFromImageConfig_def eq)
  qed
qed

lemma added_PATH_is_PATH:
  "is_PATH_entry (case find is_PATH_entry imgEnv of Some v \<Rightarrow> v | None \<Rightarrow> ''PATH='' @ defaultEnvPath)"
proof (cases "find is_PATH_entry imgEnv")
  case None
  then show ?thesis
    using default_PATH_entry [of defaultEnvPath] by (simp only: is_PATH_entry_def option.case)
next
  case (Some v)
  then have "is_PATH_entry v" by (auto simp: find_Some_iff)
  with Some show ?thesis by simp
qed

lemma filter_PATH_setPath:
  "filter is_PATH_entry (setPathFromImageConfig env imgEnv) =
     (if \<exists>e \<in> set env. is_PATH_entry e then filter is_PATH_entry env
      else [case find is_PATH_entry imgEnv of Some v \<Rightarrow> v | None \<Rightarrow> ''PATH='' @ defaultEnvPath])"
  using added_PATH_is_PATH [of imgEnv]
  by (auto simp: setPath_shape filter_empty_conv)

lemma PATH_key_in_setPath: "''PATH'' \<in> env_key ` set (setPathFromImageConfig env imgEnv)"
proof (cases "\<exists>e \<in> set env. is_PATH_entry e")
  case True
  then show ?thesis
    by (auto simp: setPath_shape dest!: PATH_entry_key intro: rev_image_eqI)
next
  case False
  then show ?thesis
    using PATH_entry_key [OF added_PATH_is_PATH [of imgEnv]]
    by (auto simp: setPath_shape intro: rev_image_eqI)
qed

lemma filter_PATH_result:
  "filter is_PATH_entry (setEnvFromImageConfig tty env imgEnv)
     = filter is_PATH_entry (setPathFromImageConfig env imgEnv)"
proof -
  have "\<not> is_PATH_entry ''TERM=xterm''"
    by (simp add: is_PATH_entry_def HasPrefix_def)
  moreover have "filter is_PATH_entry
      (filter (\<lambda>e. env_key e \<notin> env_key ` set (setPathFromImageConfig env imgEnv)) imgEnv) = []"
    using PATH_key_in_setPath [of env imgEnv]
    by (auto simp: filter_empty_conv dest: PATH_entry_key)
  ultimately show ?thesis
    by (simp add: setEnvFromImageConfig_shape)
qed


lemma xterm_is_TERM: "is_TERM_entry ''TERM=xterm''"
  by (simp add: is_TERM_entry_def env_key_takeWhile)

lemma PATH_entry_not_TERM: "is_PATH_entry e \<Longrightarrow> \<not> is_TERM_entry e"
  by (auto simp: is_TERM_entry_def dest!: PATH_entry_key)

lemma TERM_in_result:
  assumes tty
  shows "\<exists>e \<in> set (setEnvFromImageConfig tty env imgEnv). is_TERM_entry e"
proof (cases "''TERM'' \<in> env_key ` set (setPathFromImageConfig env imgEnv)")
  case True
  then obtain e where "e \<in> set (setPathFromImageConfig env imgEnv)" "is_TERM_entry e"
    by (auto simp: is_TERM_entry_def)
  then show ?thesis
    by (auto simp: setEnvFromImageConfig_shape)
next
  case False
  with assms have "''TERM=xterm'' \<in> set (setEnvFromImageConfig tty env imgEnv)"
    by (simp add: setEnvFromImageConfig_shape)
  with xterm_is_TERM show ?thesis by blast
qed

lemma filter_TERM_setPath:
  "filter is_TERM_entry (setPathFromImageConfig env imgEnv) = filter is_TERM_entry env"
  using PATH_entry_not_TERM [OF added_PATH_is_PATH [of imgEnv]]
  by (simp add: setPath_shape)

lemma filter_TERM_result:
  assumes "\<exists>e \<in> set env. is_TERM_entry e"
  shows "filter is_TERM_entry (setEnvFromImageConfig tty env imgEnv) = filter is_TERM_entry env"
proof -
  from assms have k: "''TERM'' \<in> env_key ` set (setPathFromImageConfig env imgEnv)"
    by (auto simp: setPath_shape is_TERM_entry_def intro: rev_image_eqI)
  then have "filter is_TERM_entry
      (filter (\<lambda>e. env_key e \<notin> env_key ` set (setPathFromImageConfig env imgEnv)) imgEnv) = []"
    by (auto simp: filter_empty_conv is_TERM_entry_def)
  with k show ?thesis
    by (simp add: setEnvFromImageConfig_shape filter_TERM_setPath)
qed

text \<open>
  C6, as stated, fails. A user environment with two \<^verbatim>\<open>PATH\<close> entries keeps both:
  \<^verbatim>\<open>setPathFromImageConfig\<close> returns at the first one it finds and nothing removes the
  second.
\<close>

theorem setEnvFromImageConfig_two_PATH_counterexample:
  "setEnvFromImageConfig False [''PATH=/a'', ''PATH=/b''] [] = [''PATH=/a'', ''PATH=/b'']
   \<and> length (filter is_PATH_entry (setEnvFromImageConfig False [''PATH=/a'', ''PATH=/b''] [])) = 2"
  by (simp add: setEnvFromImageConfig_def setPathFromImageConfig_def containerEnv_of_def
      is_PATH_entry_def HasPrefix_def SplitN2_def)

text \<open>
  C6, amended. For every terminal flag, user environment and image environment, the
  merged environment has at least one \<^verbatim>\<open>PATH\<close> entry, and exactly one whenever the user
  environment has at most one; when the terminal flag is set it has an entry named
  \<^verbatim>\<open>TERM\<close>; when the user environment has a \<^verbatim>\<open>PATH\<close> entry, the \<^verbatim>\<open>PATH\<close> entries of the
  result are those of the user environment, and likewise for the entries named \<^verbatim>\<open>TERM\<close>:
  the image's values for them are not taken.
\<close>

theorem setEnvFromImageConfig_PATH_TERM:
  "filter is_PATH_entry (setEnvFromImageConfig tty env imgEnv) \<noteq> []
   \<and> (length (filter is_PATH_entry env) \<le> 1 \<longrightarrow>
        length (filter is_PATH_entry (setEnvFromImageConfig tty env imgEnv)) = 1)
   \<and> (tty \<longrightarrow> (\<exists>e \<in> set (setEnvFromImageConfig tty env imgEnv). is_TERM_entry e))
   \<and> ((\<exists>e \<in> set env. is_PATH_entry e) \<longrightarrow>
        filter is_PATH_entry (setEnvFromImageConfig tty env imgEnv) = filter is_PATH_entry env)
   \<and> ((\<exists>e \<in> set env. is_TERM_entry e) \<longrightarrow>
        filter is_TERM_entry (setEnvFromImageConfig tty env imgEnv) = filter is_TERM_entry env)"
proof -
  have p: "filter is_PATH_entry (setEnvFromImageConfig tty env imgEnv) =
     (if \<exists>e \<in> set env. is_PATH_entry e then filter is_PATH_entry env
      else [case find is_PATH_entry imgEnv of Some v \<Rightarrow> v | None \<Rightarrow> ''PATH='' @ defaultEnvPath])"
    by (simp only: filter_PATH_result filter_PATH_setPath)
  have 1: "filter is_PATH_entry (setEnvFromImageConfig tty env imgEnv) \<noteq> []"
    by (auto simp: p filter_empty_conv)
  have 2: "length (filter is_PATH_entry env) \<le> 1 \<longrightarrow>
        length (filter is_PATH_entry (setEnvFromImageConfig tty env imgEnv)) = 1"
  proof (cases "\<exists>e \<in> set env. is_PATH_entry e")
    case True
    then have "filter is_PATH_entry env \<noteq> []" by (auto simp: filter_empty_conv)
    then have "1 \<le> length (filter is_PATH_entry env)"
      by (cases "filter is_PATH_entry env") simp_all
    with True show ?thesis by (simp add: p)
  next
    case False
    then show ?thesis by (simp add: p)
  qed
  have 4: "(\<exists>e \<in> set env. is_PATH_entry e) \<longrightarrow>
        filter is_PATH_entry (setEnvFromImageConfig tty env imgEnv) = filter is_PATH_entry env"
    by (simp add: p)
  from 1 2 4 TERM_in_result [of tty env imgEnv] filter_TERM_result [of env tty imgEnv]
  show ?thesis by blast
qed

theorem setEnvFromImageConfig_PATH_TERM_witness:
  "setEnvFromImageConfig True [''PATH=/user/bin'', ''TERM=vt100'']
        [''PATH=/img/bin'', ''TERM=dumb'', ''LANG=C'']
     = [''PATH=/user/bin'', ''TERM=vt100'', ''LANG=C'']
   \<and> length (filter is_PATH_entry (setEnvFromImageConfig True [''PATH=/user/bin'', ''TERM=vt100'']
        [''PATH=/img/bin'', ''TERM=dumb'', ''LANG=C''])) = 1
   \<and> filter is_TERM_entry (setEnvFromImageConfig True [''PATH=/user/bin'', ''TERM=vt100'']
        [''PATH=/img/bin'', ''TERM=dumb'', ''LANG=C'']) = [''TERM=vt100'']"
  using setEnvFromImageConfig_PATH_TERM
    [of True "[''PATH=/user/bin'', ''TERM=vt100'']" "[''PATH=/img/bin'', ''TERM=dumb'', ''LANG=C'']"]
  by (simp add: setEnvFromImageConfig_def setPathFromImageConfig_def containerEnv_of_def
      is_PATH_entry_def is_TERM_entry_def env_key_def HasPrefix_def SplitN2_def)

subsection \<open>Creating the containers of a pod\<close>






subsection \<open>Looking up an image\<close>

text \<open>
  C9. When the first cache lookup fails and \<open>actuate\<close> is false, and when it fails,
  \<open>actuate\<close> is true and the pull fails, \<^verbatim>\<open>Get\<close> returns the config of the failed lookup
  with a \<^verbatim>\<open>nil\<close> error. \<^verbatim>\<open>Get\<close> returns an error only when the first lookup failed,
  \<open>actuate\<close> is true, the pull succeeded and the second lookup failed; the error is
  then that of the second lookup, with a \<^verbatim>\<open>nil\<close> config.
\<close>

theorem Get_swallows_failures:
  fixes env :: "'w World" and w :: 'w and idOrRef :: string and v :: VicImageStore
    and tag :: string and actuate :: bool
  defines "first \<equiv> cache_Get env w idOrRef"
  defines "pull \<equiv> PullImage env v idOrRef tag '''' '''' w"
  defines "second \<equiv> cache_Get env (snd pull) idOrRef"
  defines "res \<equiv> fst (Get env v idOrRef tag actuate w)"
  shows "(snd first \<noteq> None \<and> \<not> actuate \<longrightarrow> res = (fst first, None))
       \<and> (snd first \<noteq> None \<and> actuate \<and> fst pull \<noteq> None \<longrightarrow> res = (fst first, None))
       \<and> (snd res \<noteq> None \<longrightarrow>
            snd first \<noteq> None \<and> actuate \<and> fst pull = None \<and> snd second \<noteq> None
          \<and> res = (None, snd second))
       \<and> (snd first \<noteq> None \<and> actuate \<and> fst pull = None \<and> snd second \<noteq> None \<longrightarrow>
            res = (None, snd second))"
proof -
  obtain c err where f: "cache_Get env w idOrRef = (c, err)"
    by (cases "cache_Get env w idOrRef")
  obtain err1 w1 where p: "PullImage env v idOrRef tag '''' '''' w = (err1, w1)"
    by (cases "PullImage env v idOrRef tag '''' '''' w")
  obtain c2 err2 where s: "cache_Get env w1 idOrRef = (c2, err2)"
    by (cases "cache_Get env w1 idOrRef")
  have "res = (if err \<noteq> None \<and> actuate
               then (if err1 = None then (if err2 \<noteq> None then (None, err2) else (c2, None))
                     else (c, None))
               else (c, None))"
    by (simp add: res_def Get_def f p s)
  then show ?thesis
    by (simp add: first_def pull_def second_def f p s)
qed

theorem Get_swallows_failures_witness:
  "fst (Get (example_world 500) \<lparr> personaAddr = ''persona'', portlayerAddr = ''pl'' \<rparr>
          ''busybox'' ''latest'' False 0) = (None, None)
   \<and> fst (Get (example_world 500) \<lparr> personaAddr = ''persona'', portlayerAddr = ''pl'' \<rparr>
          ''busybox'' ''latest'' True 0) = (None, None)
   \<and> fst (Get (example_world 200) \<lparr> personaAddr = ''persona'', portlayerAddr = ''pl'' \<rparr>
          ''busybox'' ''latest'' True 0) = (None, Some (External ''image not found''))"
  using
    Get_swallows_failures
      [where env = "example_world 500" and w = 0 and idOrRef = "''busybox''"
         and v = "\<lparr> personaAddr = ''persona'', portlayerAddr = ''pl'' \<rparr>"
         and tag = "''latest''" and actuate = False]
    Get_swallows_failures
      [where env = "example_world 500" and w = 0 and idOrRef = "''busybox''"
         and v = "\<lparr> personaAddr = ''persona'', portlayerAddr = ''pl'' \<rparr>"
         and tag = "''latest''" and actuate = True]
    Get_swallows_failures
      [where env = "example_world 200" and w = 0 and idOrRef = "''busybox''"
         and v = "\<lparr> personaAddr = ''persona'', portlayerAddr = ''pl'' \<rparr>"
         and tag = "''latest''" and actuate = True]
  by (simp add: Get_def PullImage_def example_world_def)

subsection \<open>Translating the container spec\<close>

text \<open>
  C10, as stated, fails: the name of the container is copied as well, so two containers
  that agree on every field the claim lists are translated differently.
\<close>

theorem KubeSpecToDockerCreateSpec_Name_counterexample:
  "ContainerCreateConfig.Name
       (KubeSpecToDockerCreateSpec (zero_Container\<lparr>Container.Name := ''web''\<rparr>)) = ''web''
   \<and> KubeSpecToDockerCreateSpec (zero_Container\<lparr>Container.Name := ''web''\<rparr>)
     \<noteq> KubeSpecToDockerCreateSpec (zero_Container\<lparr>Container.Name := ''db''\<rparr>)"
  by (simp add: KubeSpecToDockerCreateSpec_def zero_Container_def)

text \<open>
  C10, amended. For every container spec the translation leaves \<open>Entrypoint\<close> and \<open>Env\<close>
  of the create config empty and copies the name, the command (when it is not empty),
  the working directory, the image, the three terminal flags, the CPU limit and the
  memory limit. Nothing else is read: the result does not change with \<open>Args\<close> (or with
  the container's environment), and two specs that agree on the copied fields have the
  same translation.
\<close>

theorem KubeSpecToDockerCreateSpec_copies:
  "(\<exists>cfg hc.
       ContainerCreateConfig.Config (KubeSpecToDockerCreateSpec c) = Some cfg
     \<and> ContainerCreateConfig.HostConfig (KubeSpecToDockerCreateSpec c) = Some hc
     \<and> ContainerCreateConfig.Name (KubeSpecToDockerCreateSpec c) = Container.Name c
     \<and> Config.Entrypoint cfg = [] \<and> Config.Env cfg = []
     \<and> (Command c \<noteq> [] \<longrightarrow> Config.Cmd cfg = Command c)
     \<and> (Command c = [] \<longrightarrow> Config.Cmd cfg = [])
     \<and> Config.WorkingDir cfg = Container.WorkingDir c
     \<and> Config.Image cfg = Container.Image c
     \<and> Config.Tty cfg = TTY c
     \<and> Config.StdinOnce cfg = Container.StdinOnce c
     \<and> Config.OpenStdin cfg = Stdin c
     \<and> HostConfig.CPUCount hc = Limits_Cpu c
     \<and> HostConfig.Memory hc = Limits_Memory c)
   \<and> KubeSpecToDockerCreateSpec (c\<lparr>Container.Args := args, Container.Env := env\<rparr>)
       = KubeSpecToDockerCreateSpec c
   \<and> (\<forall>c'. Container.Name c' = Container.Name c \<and> Command c' = Command c
            \<and> Container.WorkingDir c' = Container.WorkingDir c
            \<and> Container.Image c' = Container.Image c \<and> TTY c' = TTY c
            \<and> Container.StdinOnce c' = Container.StdinOnce c \<and> Stdin c' = Stdin c
            \<and> Limits_Cpu c' = Limits_Cpu c \<and> Limits_Memory c' = Limits_Memory c
          \<longrightarrow> KubeSpecToDockerCreateSpec c' = KubeSpecToDockerCreateSpec c)"
  by (simp add: KubeSpecToDockerCreateSpec_def Let_def)

theorem KubeSpecToDockerCreateSpec_copies_witness:
  "(\<exists>cfg. ContainerCreateConfig.Config
            (KubeSpecToDockerCreateSpec
               (zero_Container\<lparr>Command := [''nginx''], Container.Args := [''-g'', ''daemon off;'']\<rparr>))
          = Some cfg
        \<and> Config.Cmd cfg = [''nginx''] \<and> Config.Entrypoint cfg = [] \<and> Config.Env cfg = [])
   \<and> KubeSpecToDockerCreateSpec
        (zero_Container\<lparr>Command := [''nginx''], Container.Args := [''-g'', ''daemon off;'']\<rparr>)
     = KubeSpecToDockerCreateSpec (zero_Container\<lparr>Command := [''nginx'']\<rparr>)
   \<and> (\<exists>cfg. ContainerCreateConfig.Config
            (KubeSpecToDockerCreateSpec (zero_Container\<lparr>Container.Args := [''--help'']\<rparr>))
          = Some cfg
        \<and> Config.Cmd cfg = [])"
  using
    KubeSpecToDockerCreateSpec_copies
      [where c = "zero_Container\<lparr>Command := [''nginx'']\<rparr>"
         and args = "[''-g'', ''daemon off;'']" and env = "[]"]
    KubeSpecToDockerCreateSpec_copies
      [where c = "zero_Container" and args = "[''--help'']" and env = "[]"]
  by (simp add: zero_Container_def KubeSpecToDockerCreateSpec_def)

end
